theory Spec2Isabelle
  imports Complex_Main "HOL-Library.AList"
begin

section \<open>Data model (src/types/detection.ts)\<close>

text \<open>
  A JavaScript string is a sequence of UTF-16 code units; each code unit is modelled as a
  natural number.  JavaScript numbers are idealised: scores, confidences and weights are
  reals, millisecond clock readings and time-to-live values are integers, counters and
  the capacity of the cache are naturals.
\<close>

type_synonym jsstring = "nat list"

definition js :: "string \<Rightarrow> jsstring" where
  "js s = map of_char s"

datatype SpamIndicatorType =
  Profanity | RepetitiveContent | Promotional | SuspiciousLinks | CapsAbuse
  | FakeEngagement | CharacterPatterns | WordPatterns | SentenceStructure

datatype SeverityLevel = Low | Medium | High

datatype DetectionDecision = Allow | Flag | Reject | UnderReview

record SpamIndicator =
  ind_type :: SpamIndicatorType
  severity :: SeverityLevel
  confidence :: real
  evidence :: "jsstring list"
  weight :: real

record DetectionResult =
  decision :: DetectionDecision
  overallScore :: real
  resultConfidence :: real
  indicators :: "SpamIndicator list"
  processingTime :: real
  contentHash :: jsstring

text \<open>A thrown JavaScript \<open>Error\<close>, with its message.\<close>

datatype exn = Error jsstring

text \<open>
  A detection rule (interface \<open>DetectionRule\<close>).  \<open>execute\<close> either throws (\<open>Inl\<close>),
  emits no indicator (\<open>Inr None\<close>) or emits one (\<open>Inr (Some i)\<close>).
\<close>

record DetectionRule =
  rule_name :: jsstring
  rule_type :: SpamIndicatorType
  rule_weight :: real
  enabled :: bool
  execute :: "jsstring \<Rightarrow> exn + SpamIndicator option"

section \<open>Configuration (config/detection.ts)\<close>

record Thresholds =
  thr_allow :: real
  thr_flag :: real
  thr_underReview :: real
  thr_reject :: real

definition DETECTION_THRESHOLDS :: Thresholds where
  "DETECTION_THRESHOLDS =
     \<lparr>thr_allow = 0.2, thr_flag = 0.5, thr_underReview = 0.7, thr_reject = 0.7\<rparr>"

section \<open>Strings: whitespace and \<open>trim\<close>\<close>

text \<open>
  The code units that \<open>String.prototype.trim\<close> strips and that the regular expression
  class \<open>\s\<close> matches: ECMAScript WhiteSpace and LineTerminator.
\<close>

definition isWhiteSpace :: "nat \<Rightarrow> bool" where
  "isWhiteSpace c \<longleftrightarrow>
     c = 0x09 \<or> c = 0x0A \<or> c = 0x0B \<or> c = 0x0C \<or> c = 0x0D \<or> c = 0x20 \<or> c = 0xA0
     \<or> c = 0x1680 \<or> (0x2000 \<le> c \<and> c \<le> 0x200A) \<or> c = 0x2028 \<or> c = 0x2029
     \<or> c = 0x202F \<or> c = 0x205F \<or> c = 0x3000 \<or> c = 0xFEFF"

definition trim :: "jsstring \<Rightarrow> jsstring" where
  "trim s = rev (dropWhile isWhiteSpace (rev (dropWhile isWhiteSpace s)))"

text \<open>The guard \<open>!content || content.trim().length === 0\<close> on a string argument.\<close>

definition isBlank :: "jsstring \<Rightarrow> bool" where
  "isBlank content \<longleftrightarrow> content = [] \<or> length (trim content) = 0"

section \<open>Platform functions and the content fingerprint (utils/hash.ts)\<close>

text \<open>
  Functions of the JavaScript platform that the repository calls but does not define are
  parameters of the model: the hexadecimal SHA-256 digest of a string
  (\<open>createHash('sha256').update(s).digest('hex')\<close>), \<open>String.prototype.toLowerCase\<close>, and
  \<open>normalizeText\<close>, which stands for the text transformation of
  \<open>ContentPreprocessor.preprocess\<close> (\<open>fixEncoding\<close>, \<open>normalizeUnicode\<close>,
  \<open>handleObfuscation\<close>, \<open>smartNormalization\<close>, built on Unicode NFC normalisation and the
  regular-expression engine).
\<close>

record Platform =
  sha256_hex :: "jsstring \<Rightarrow> jsstring"
  toLowerCase :: "jsstring \<Rightarrow> jsstring"
  normalizeText :: "jsstring \<Rightarrow> jsstring"

definition createContentHash :: "Platform \<Rightarrow> jsstring \<Rightarrow> jsstring" where
  "createContentHash P content = take 16 (sha256_hex P (toLowerCase P (trim content)))"

section \<open>Detection engine (class SpamDetectionEngine)\<close>

definition getEnabledRules :: "DetectionRule list \<Rightarrow> DetectionRule list" where
  "getEnabledRules rules = filter enabled rules"

text \<open>
  \<open>executeRuleSafely\<close>: the \<open>catch\<close> clause logs the failure of a rule and returns \<open>null\<close>.
\<close>

definition executeRuleSafely :: "DetectionRule \<Rightarrow> jsstring \<Rightarrow> exn + SpamIndicator option" where
  "executeRuleSafely rule content =
     (case execute rule content of Inl err \<Rightarrow> Inr None | Inr r \<Rightarrow> Inr r)"

text \<open>\<open>Promise.all\<close>: rejects as soon as one of the promises rejects.\<close>

fun promise_all :: "(exn + 'a) list \<Rightarrow> exn + 'a list" where
  "promise_all [] = Inr []"
| "promise_all (p # ps) =
     (case p of
        Inl err \<Rightarrow> Inl err
      | Inr v \<Rightarrow> (case promise_all ps of Inl err \<Rightarrow> Inl err | Inr vs \<Rightarrow> Inr (v # vs)))"

text \<open>The \<open>for\<close> loop of \<open>calculateFinalDecision\<close> over \<open>(totalScore, totalWeight)\<close>.\<close>

fun accumulate :: "SpamIndicator list \<Rightarrow> real \<times> real \<Rightarrow> real \<times> real" where
  "accumulate [] acc = acc"
| "accumulate (indicator # rest) (totalScore, totalWeight) =
     accumulate rest
       (totalScore + confidence indicator * weight indicator, totalWeight + weight indicator)"

definition getDecisionFromScore :: "real \<Rightarrow> DetectionDecision" where
  "getDecisionFromScore score =
     (if score \<le> thr_allow DETECTION_THRESHOLDS then Allow
      else if score \<le> thr_flag DETECTION_THRESHOLDS then Flag
      else if score \<le> thr_underReview DETECTION_THRESHOLDS then UnderReview
      else Reject)"

definition calculateConfidence :: "SpamIndicator list \<Rightarrow> real \<Rightarrow> real" where
  "calculateConfidence inds score =
     (if length inds = 0 then 1.0
      else
        let indicatorFactor = min (real (length inds) / 3) 1;
            scoreFactor = (if score < 0.2 \<or> score > 0.8 then 1.0 else 0.7);
            avgIndicatorConfidence =
              foldl (\<lambda>sum ind. sum + confidence ind) 0 inds / real (length inds)
        in min (indicatorFactor * scoreFactor * avgIndicatorConfidence) 1.0)"

definition calculateFinalDecision ::
  "SpamIndicator list \<Rightarrow> jsstring \<Rightarrow> real \<Rightarrow> DetectionResult" where
  "calculateFinalDecision inds hash ptime =
     (let (totalScore, totalWeight) = accumulate inds (0, 0);
          score = (if totalWeight > 0 then totalScore / totalWeight else 0);
          conf = calculateConfidence inds score;
          dec = getDecisionFromScore score
      in \<lparr>decision = dec, overallScore = score, resultConfidence = conf,
          indicators = inds, processingTime = ptime, contentHash = hash\<rparr>)"

definition createEmptyResult :: "jsstring \<Rightarrow> real \<Rightarrow> DetectionResult" where
  "createEmptyResult hash ptime =
     \<lparr>decision = Allow, overallScore = 0, resultConfidence = 1.0, indicators = [],
      processingTime = ptime, contentHash = hash\<rparr>"

definition createErrorResult :: "jsstring \<Rightarrow> real \<Rightarrow> DetectionResult" where
  "createErrorResult hash ptime =
     \<lparr>decision = UnderReview, overallScore = 0.5, resultConfidence = 0.1, indicators = [],
      processingTime = ptime, contentHash = hash\<rparr>"

text \<open>
  The body of the \<open>try\<close> block of \<open>SpamDetectionEngine.analyzeContent\<close>: all enabled rules
  are run through \<open>executeRuleSafely\<close>, the results are awaited with \<open>Promise.all\<close>, the
  \<open>null\<close> results are filtered out and the rest is aggregated.
\<close>

definition engine_try :: "DetectionRule list \<Rightarrow> jsstring \<Rightarrow> jsstring \<Rightarrow> real
    \<Rightarrow> exn + DetectionResult" where
  "engine_try rules content hash ptime =
     (let enabledRules = getEnabledRules rules;
          rulePromises = map (\<lambda>rule. executeRuleSafely rule content) enabledRules
      in case promise_all rulePromises of
           Inl err \<Rightarrow> Inl err
         | Inr ruleResults \<Rightarrow>
             Inr (calculateFinalDecision (List.map_filter id ruleResults) hash ptime))"

text \<open>
  \<open>SpamDetectionEngine.analyzeContent\<close>; \<open>ptime\<close> is the reading of the engine's timer.
  An exception that left the method would be the value \<open>Inl\<close>.
\<close>

definition engine_analyzeContent :: "Platform \<Rightarrow> DetectionRule list \<Rightarrow> jsstring \<Rightarrow> real
    \<Rightarrow> exn + DetectionResult" where
  "engine_analyzeContent P rules content ptime =
     (let hash = createContentHash P content
      in if isBlank content then Inr (createEmptyResult hash ptime)
         else case engine_try rules content hash ptime of
                Inr result \<Rightarrow> Inr result
              | Inl err \<Rightarrow> Inr (createErrorResult hash ptime))"

section \<open>Result cache (class MemoryCache, types/cache.ts)\<close>

text \<open>
  \<open>CacheEntry<DetectionResult>\<close>.  The field \<open>ttl\<close> is optional in the interface.
\<close>

record CacheEntry =
  entry_value :: DetectionResult
  timestamp :: int
  hits :: nat
  ttl :: "int option"

text \<open>
  The JavaScript \<open>Map\<close> of the cache is an association list in insertion order, which is
  the order in which \<open>Map.prototype.entries\<close> iterates: \<open>map_of\<close> is \<open>Map.get\<close>,
  \<open>AList.update\<close> is \<open>Map.set\<close> (an existing key keeps its position, a new key goes to
  the end) and \<open>AList.delete\<close> is \<open>Map.delete\<close>.  \<open>total_hits\<close> is the field \<open>hits\<close> of
  the cache (the name \<open>hits\<close> is the entry's counter).
\<close>

record MemoryCache =
  cache :: "(jsstring \<times> CacheEntry) list"
  total_hits :: nat
  misses :: nat
  maxEntries :: nat
  defaultTtl :: int

definition new_MemoryCache :: "nat \<Rightarrow> int \<Rightarrow> MemoryCache" where
  "new_MemoryCache maxEntriesArg defaultTtlMs =
     \<lparr>cache = [], total_hits = 0, misses = 0, maxEntries = maxEntriesArg,
      defaultTtl = defaultTtlMs\<rparr>"

definition default_MemoryCache :: MemoryCache where
  "default_MemoryCache = new_MemoryCache 10000 (60 * 60 * 1000)"

text \<open>The test \<open>entry.ttl && now > entry.timestamp + entry.ttl\<close>: a ttl of 0 is falsy.\<close>

definition isExpired :: "CacheEntry \<Rightarrow> int \<Rightarrow> bool" where
  "isExpired entry now \<longleftrightarrow>
     (case ttl entry of None \<Rightarrow> False | Some t \<Rightarrow> t \<noteq> 0 \<and> now > timestamp entry + t)"

text \<open>\<open>get\<close>, at clock reading \<open>now\<close>: the returned value and the cache afterwards.\<close>

definition cache_get :: "MemoryCache \<Rightarrow> jsstring \<Rightarrow> int \<Rightarrow> DetectionResult option \<times> MemoryCache"
  where
  "cache_get c contentHashArg now =
     (case map_of (cache c) contentHashArg of
        None \<Rightarrow> (None, c\<lparr>misses := misses c + 1\<rparr>)
      | Some entry \<Rightarrow>
          if isExpired entry now
          then (None, c\<lparr>cache := AList.delete contentHashArg (cache c), misses := misses c + 1\<rparr>)
          else (Some (entry_value entry),
                c\<lparr>total_hits := total_hits c + 1,
                  cache := AList.update contentHashArg (entry\<lparr>hits := hits entry + 1\<rparr>)
                             (cache c)\<rparr>))"

text \<open>The score of an entry in \<open>evictLeastRecentlyUsed\<close>.\<close>

definition evictionScore :: "int \<Rightarrow> CacheEntry \<Rightarrow> real" where
  "evictionScore now entry =
     (let ageHours = real_of_int (now - timestamp entry) / (1000 * 60 * 60)
      in real (hits entry) / max ageHours 0.1)"

text \<open>
  The loop of \<open>evictLeastRecentlyUsed\<close> over \<open>(lruKey, lowestScore)\<close>; the initial
  \<open>lowestScore = Infinity\<close> is \<open>None\<close>.
\<close>

fun evict_loop :: "int \<Rightarrow> (jsstring \<times> CacheEntry) list \<Rightarrow> jsstring option \<times> real option
    \<Rightarrow> jsstring option \<times> real option" where
  "evict_loop now [] acc = acc"
| "evict_loop now ((key, entry) # rest) (lruKey, lowestScore) =
     (let score = evictionScore now entry
      in if (case lowestScore of None \<Rightarrow> True | Some lowest \<Rightarrow> score < lowest)
         then evict_loop now rest (Some key, Some score)
         else evict_loop now rest (lruKey, lowestScore))"

text \<open>The final \<open>if (lruKey)\<close> is false for \<open>null\<close> and for the empty string.\<close>

definition evictLeastRecentlyUsed :: "MemoryCache \<Rightarrow> int \<Rightarrow> MemoryCache" where
  "evictLeastRecentlyUsed c now =
     (if length (cache c) = 0 then c
      else case fst (evict_loop now (cache c) (None, None)) of
             None \<Rightarrow> c
           | Some lruKey \<Rightarrow>
               if lruKey = [] then c else c\<lparr>cache := AList.delete lruKey (cache c)\<rparr>)"

text \<open>
  \<open>set\<close>, at clock reading \<open>now\<close> (the reading of the eviction and the one of the new
  entry's timestamp are taken to be the same); \<open>ttlArg\<close> is the optional third argument,
  and \<open>ttl || this.defaultTtl\<close> takes the default for \<open>undefined\<close> and for 0.
\<close>

definition cache_set :: "MemoryCache \<Rightarrow> jsstring \<Rightarrow> DetectionResult \<Rightarrow> int option \<Rightarrow> int
    \<Rightarrow> MemoryCache" where
  "cache_set c contentHashArg result ttlArg now =
     (let c1 = (if length (cache c) \<ge> maxEntries c then evictLeastRecentlyUsed c now else c);
          entry = \<lparr>entry_value = result, timestamp = now, hits = 0,
                   ttl = Some (case ttlArg of
                                 None \<Rightarrow> defaultTtl c
                               | Some t \<Rightarrow> if t = 0 then defaultTtl c else t)\<rparr>
      in c1\<lparr>cache := AList.update contentHashArg entry (cache c1)\<rparr>)"

definition cache_has :: "MemoryCache \<Rightarrow> jsstring \<Rightarrow> int \<Rightarrow> bool \<times> MemoryCache" where
  "cache_has c contentHashArg now =
     (case map_of (cache c) contentHashArg of
        None \<Rightarrow> (False, c)
      | Some entry \<Rightarrow>
          if isExpired entry now
          then (False, c\<lparr>cache := AList.delete contentHashArg (cache c)\<rparr>)
          else (True, c))"

definition cache_clear :: "MemoryCache \<Rightarrow> MemoryCache" where
  "cache_clear c = c\<lparr>cache := [], total_hits := 0, misses := 0\<rparr>"


text \<open>The loop of \<open>cleanup\<close> over the entries, with the map and \<open>removedCount\<close>.\<close>

fun cleanup_loop :: "int \<Rightarrow> (jsstring \<times> CacheEntry) list
    \<Rightarrow> (jsstring \<times> CacheEntry) list \<times> nat \<Rightarrow> (jsstring \<times> CacheEntry) list \<times> nat" where
  "cleanup_loop now [] acc = acc"
| "cleanup_loop now ((key, entry) # rest) (m, removedCount) =
     (if isExpired entry now
      then cleanup_loop now rest (AList.delete key m, removedCount + 1)
      else cleanup_loop now rest (m, removedCount))"

definition cleanup :: "MemoryCache \<Rightarrow> int \<Rightarrow> nat \<times> MemoryCache" where
  "cleanup c now =
     (let (m, removedCount) = cleanup_loop now (cache c) (cache c, 0)
      in (removedCount, c\<lparr>cache := m\<rparr>))"


section \<open>Content metadata (ContentPreprocessor.generateMetadata)\<close>

record Metadata =
  hasEmojis :: bool
  hasUrls :: bool
  hasHashtags :: bool
  hasMentions :: bool
  wordCount :: nat
  characterCount :: nat
  language :: jsstring
  encoding :: jsstring

record PreprocessedContent =
  original :: jsstring
  normalized :: jsstring
  metadata :: Metadata

text \<open>Character classes of the regular expressions, on code units.\<close>

definition isDigit :: "nat \<Rightarrow> bool" where
  "isDigit c \<longleftrightarrow> 0x30 \<le> c \<and> c \<le> 0x39"

definition isUpper :: "nat \<Rightarrow> bool" where
  "isUpper c \<longleftrightarrow> 0x41 \<le> c \<and> c \<le> 0x5A"

definition isLower :: "nat \<Rightarrow> bool" where
  "isLower c \<longleftrightarrow> 0x61 \<le> c \<and> c \<le> 0x7A"

definition isLetter :: "nat \<Rightarrow> bool" where
  "isLetter c \<longleftrightarrow> isUpper c \<or> isLower c"

text \<open>The class \<open>\w\<close>.\<close>

definition isWordChar :: "nat \<Rightarrow> bool" where
  "isWordChar c \<longleftrightarrow> isLetter c \<or> isDigit c \<or> c = 0x5F"

text \<open>The characters that \<open>.\<close> does not match.\<close>

definition isLineTerminator :: "nat \<Rightarrow> bool" where
  "isLineTerminator c \<longleftrightarrow> c = 0x0A \<or> c = 0x0D \<or> c = 0x2028 \<or> c = 0x2029"

definition asciiLower :: "nat \<Rightarrow> nat" where
  "asciiLower c = (if isUpper c then c + 32 else c)"

text \<open>The number of matches of a one-character class with the flag \<open>g\<close>.\<close>

definition countMatches :: "(nat \<Rightarrow> bool) \<Rightarrow> jsstring \<Rightarrow> nat" where
  "countMatches cls s = length (filter cls s)"

text \<open>
  A match of \<open>X\w+\<close> for a character \<open>X\<close> outside \<open>\w\<close> starts at every \<open>X\<close> that is
  followed by a word character, and two matches never overlap.
\<close>

fun countTagged :: "nat \<Rightarrow> jsstring \<Rightarrow> nat" where
  "countTagged x [] = 0"
| "countTagged x [c] = 0"
| "countTagged x (c # d # rest) =
     (if c = x \<and> isWordChar d then 1 else 0) + countTagged x (d # rest)"

text \<open>\<open>/https?:\/\/[^\s]+/i\<close> matched at the start of the string, and anywhere.\<close>

definition urlPrefix :: "jsstring \<Rightarrow> bool" where
  "urlPrefix s \<longleftrightarrow>
     map asciiLower (take 4 s) = js ''http''
     \<and> (let r = drop 4 s;
             r' = (if r \<noteq> [] \<and> asciiLower (hd r) = 0x73 then tl r else r)
         in take 3 r' = js ''://'' \<and> drop 3 r' \<noteq> [] \<and> \<not> isWhiteSpace (hd (drop 3 r')))"

fun urlTest :: "jsstring \<Rightarrow> bool" where
  "urlTest [] = False"
| "urlTest (c # cs) = (urlPrefix (c # cs) \<or> urlTest cs)"

text \<open>
  The emoji class of \<open>generateMetadata\<close> carries the flag \<open>u\<close> and so matches code points:
  a surrogate pair is one character.
\<close>

definition isEmojiCodePoint :: "nat \<Rightarrow> bool" where
  "isEmojiCodePoint cp \<longleftrightarrow>
     (0x1F600 \<le> cp \<and> cp \<le> 0x1F64F) \<or> (0x1F300 \<le> cp \<and> cp \<le> 0x1F5FF)
     \<or> (0x1F680 \<le> cp \<and> cp \<le> 0x1F6FF) \<or> (0x1F700 \<le> cp \<and> cp \<le> 0x1F77F)
     \<or> (0x1F780 \<le> cp \<and> cp \<le> 0x1F7FF) \<or> (0x1F800 \<le> cp \<and> cp \<le> 0x1F8FF)
     \<or> (0x2600 \<le> cp \<and> cp \<le> 0x26FF) \<or> (0x2700 \<le> cp \<and> cp \<le> 0x27BF)"

fun emojiTest :: "jsstring \<Rightarrow> bool" where
  "emojiTest [] = False"
| "emojiTest [c] = isEmojiCodePoint c"
| "emojiTest (c # d # rest) =
     (if 0xD800 \<le> c \<and> c \<le> 0xDBFF \<and> 0xDC00 \<le> d \<and> d \<le> 0xDFFF
      then isEmojiCodePoint (0x10000 + (c - 0xD800) * 0x400 + (d - 0xDC00)) \<or> emojiTest rest
      else isEmojiCodePoint c \<or> emojiTest (d # rest))"

text \<open>
  The pieces of a string between the characters of a class.  \<open>split(/\s+/)\<close> followed by
  the filter on non-empty words keeps the non-empty pieces between white space.
\<close>

fun splitAt :: "(nat \<Rightarrow> bool) \<Rightarrow> jsstring \<Rightarrow> jsstring list" where
  "splitAt sep [] = [[]]"
| "splitAt sep (c # cs) =
     (if sep c then [] # splitAt sep cs
      else case splitAt sep cs of
             [] \<Rightarrow> [[c]]
           | w # ws \<Rightarrow> (c # w) # ws)"

definition wordsOf :: "jsstring \<Rightarrow> jsstring list" where
  "wordsOf s = filter (\<lambda>word. length word > 0) (splitAt isWhiteSpace (trim s))"

text \<open>
  \<open>detectBasicLanguage\<close>.  A match of \<open>/\b(the|and|...)\b/gi\<close> is a maximal run of word
  characters that is, up to ASCII case, one of the listed words.
\<close>

definition englishWords :: "jsstring list" where
  "englishWords = map js [''the'', ''and'', ''is'', ''in'', ''to'', ''of'', ''a'', ''that'',
     ''it'', ''with'', ''for'', ''as'', ''was'', ''on'', ''are'', ''you'']"

definition detectBasicLanguage :: "jsstring \<Rightarrow> jsstring" where
  "detectBasicLanguage content =
     (let runs = filter (\<lambda>run. length run > 0) (splitAt (\<lambda>c. \<not> isWordChar c) content);
          englishMatches = length (filter (\<lambda>run. map asciiLower run \<in> set englishWords) runs)
      in if englishMatches > 2 then js ''en'' else js ''unknown'')"

definition generateMetadata :: "jsstring \<Rightarrow> jsstring \<Rightarrow> Metadata" where
  "generateMetadata originalArg normalizedArg =
     \<lparr>hasEmojis = emojiTest originalArg,
      hasUrls = urlTest originalArg,
      hasHashtags = (countTagged 0x23 originalArg > 0),
      hasMentions = (countTagged 0x40 originalArg > 0),
      wordCount = length (wordsOf normalizedArg),
      characterCount = length normalizedArg,
      language = detectBasicLanguage normalizedArg,
      encoding = js ''utf-8''\<rparr>"

text \<open>
  \<open>ContentPreprocessor.preprocess\<close>: it throws on the empty string; otherwise the
  normalised text is that of the platform parameter and the metadata are generated from
  the original and the normalised text.
\<close>

definition preprocess :: "Platform \<Rightarrow> jsstring \<Rightarrow> exn + PreprocessedContent" where
  "preprocess P content =
     (if content = [] then Inl (Error (js ''Content must be a non-empty string''))
      else let norm = normalizeText P content
           in Inr \<lparr>original = content, normalized = norm,
                   metadata = generateMetadata content norm\<rparr>)"

section \<open>Edge-case handler (class EdgeCaseHandler)\<close>

datatype RecommendedAction = ActAllow | ActFlag | ActReject | ActManualReview

record EdgeCaseResult =
  handled :: bool
  reason :: jsstring
  edge_result :: "DetectionResult option"
  recommendedAction :: RecommendedAction

text \<open>The decimal digits of a number, as in a template literal.\<close>

fun natToString :: "nat \<Rightarrow> jsstring" where
  "natToString n = (if n < 10 then [0x30 + n] else natToString (n div 10) @ [0x30 + n mod 10])"

definition numberToString :: "int \<Rightarrow> jsstring" where
  "numberToString i = (if i < 0 then 0x2D # natToString (nat (- i)) else natToString (nat i))"

text \<open>
  \<open>createSpecialResult\<close>; \<open>now\<close> is the reading of \<open>Date.now()\<close>.  The parameters
  \<open>content\<close> and \<open>reason\<close> are not used by the body.
\<close>

definition createSpecialResult :: "int \<Rightarrow> jsstring \<Rightarrow> DetectionDecision \<Rightarrow> jsstring
    \<Rightarrow> SpamIndicator list \<Rightarrow> DetectionResult" where
  "createSpecialResult now content dec reasonArg inds =
     \<lparr>decision = dec,
      overallScore = (if dec = Reject then 0.9 else if dec = Flag then 0.5 else 0.3),
      resultConfidence = 0.8,
      indicators = inds,
      processingTime = 1.0,
      contentHash = js ''edge_case_'' @ numberToString now\<rparr>"

definition createEmptyContentResult :: "int \<Rightarrow> jsstring \<Rightarrow> DetectionResult" where
  "createEmptyContentResult now content =
     createSpecialResult now content Reject (js ''Empty or meaningless content'') []"

definition createShortContentResult :: "int \<Rightarrow> jsstring \<Rightarrow> DetectionResult" where
  "createShortContentResult now content =
     createSpecialResult now content Flag (js ''Extremely short content'') []"

definition createLongContentResult :: "int \<Rightarrow> jsstring \<Rightarrow> DetectionResult" where
  "createLongContentResult now content =
     createSpecialResult now content Flag (js ''Content exceeds length limits'') []"

definition createEncodingResult :: "int \<Rightarrow> jsstring \<Rightarrow> DetectionResult" where
  "createEncodingResult now content =
     createSpecialResult now content UnderReview (js ''Encoding issues detected'') []"

definition createObfuscationResult :: "int \<Rightarrow> jsstring \<Rightarrow> jsstring \<Rightarrow> DetectionResult" where
  "createObfuscationResult now content kind =
     (let indicator = \<lparr>ind_type = CharacterPatterns, severity = High, confidence = 0.9,
                        evidence = [js ''Obfuscation detected: '' @ kind], weight = 0.8\<rparr>
      in createSpecialResult now content Reject (js ''Obfuscation attempt'') [indicator])"

definition createLanguageResult :: "int \<Rightarrow> jsstring \<Rightarrow> DetectionResult" where
  "createLanguageResult now content =
     createSpecialResult now content Flag (js ''Language detection issues'') []"

definition createSpecialCharResult :: "int \<Rightarrow> jsstring \<Rightarrow> DetectionResult" where
  "createSpecialCharResult now content =
     createSpecialResult now content Flag (js ''Excessive special characters'') []"

definition createContextualResult :: "int \<Rightarrow> jsstring \<Rightarrow> jsstring \<Rightarrow> DetectionResult" where
  "createContextualResult now content kind =
     createSpecialResult now content Flag (js ''Contextual issue: '' @ kind) []"

definition edge_createErrorResult :: "int \<Rightarrow> jsstring \<Rightarrow> jsstring \<Rightarrow> DetectionResult" where
  "edge_createErrorResult now content errorType =
     createSpecialResult now content UnderReview (js ''Processing error: '' @ errorType) []"

text \<open>The value \<open>{ handled: false, reason: '', recommendedAction: 'allow' }\<close>.\<close>

definition notHandled :: EdgeCaseResult where
  "notHandled = \<lparr>handled = False, reason = [], edge_result = None,
                  recommendedAction = ActAllow\<rparr>"

definition handleEmptyContent :: "int \<Rightarrow> PreprocessedContent \<Rightarrow> EdgeCaseResult" where
  "handleEmptyContent now preprocessed =
     (if length (trim (normalized preprocessed)) = 0
      then \<lparr>handled = True, reason = js ''Empty content after preprocessing'',
            edge_result = Some (createEmptyContentResult now (original preprocessed)),
            recommendedAction = ActReject\<rparr>
      else if wordCount (metadata preprocessed) = 0
      then \<lparr>handled = True, reason = js ''No meaningful words found'',
            edge_result = Some (createEmptyContentResult now (original preprocessed)),
            recommendedAction = ActReject\<rparr>
      else notHandled)"

definition handleExtremeLength :: "int \<Rightarrow> PreprocessedContent \<Rightarrow> EdgeCaseResult" where
  "handleExtremeLength now preprocessed =
     (if characterCount (metadata preprocessed) < 3 \<and> wordCount (metadata preprocessed) = 1
      then \<lparr>handled = True, reason = js ''Extremely short content'',
            edge_result = Some (createShortContentResult now (original preprocessed)),
            recommendedAction = ActFlag\<rparr>
      else if characterCount (metadata preprocessed) > 2000
      then \<lparr>handled = True, reason = js ''Content exceeds reasonable length'',
            edge_result = Some (createLongContentResult now (original preprocessed)),
            recommendedAction = ActFlag\<rparr>
      else notHandled)"

text \<open>The class of \<open>unicodeIssues\<close>: U+FFFD, U+0000 to U+001F and U+007F to U+009F.\<close>

definition isUnicodeIssue :: "nat \<Rightarrow> bool" where
  "isUnicodeIssue c \<longleftrightarrow> c = 0xFFFD \<or> c \<le> 0x1F \<or> (0x7F \<le> c \<and> c \<le> 0x9F)"

definition handleEncodingIssues :: "int \<Rightarrow> PreprocessedContent \<Rightarrow> EdgeCaseResult" where
  "handleEncodingIssues now preprocessed =
     (let originalLength = length (original preprocessed);
          normalizedLength = length (normalized preprocessed);
          reductionRatio =
            (real originalLength - real normalizedLength) / real originalLength
      in if reductionRatio > 0.5 \<and> originalLength > 20
         then \<lparr>handled = True,
               reason = js ''Significant character loss during preprocessing - possible encoding issues'',
               edge_result = Some (createEncodingResult now (original preprocessed)),
               recommendedAction = ActManualReview\<rparr>
         else if countMatches isUnicodeIssue (original preprocessed) > 5
         then \<lparr>handled = True, reason = js ''Multiple Unicode encoding issues detected'',
               edge_result = Some (createEncodingResult now (original preprocessed)),
               recommendedAction = ActManualReview\<rparr>
         else notHandled)"

text \<open>The class of \<open>zeroWidthChars\<close>: U+200B, U+200C, U+200D, U+2060 and U+FEFF.\<close>

definition isZeroWidth :: "nat \<Rightarrow> bool" where
  "isZeroWidth c \<longleftrightarrow> c = 0x200B \<or> c = 0x200C \<or> c = 0x200D \<or> c = 0x2060 \<or> c = 0xFEFF"

text \<open>
  The classes of \<open>/[\<dots>].*[a-z]|[a-z].*[\<dots>]/i\<close>, whose first class is the range from
  U+0430 to U+044F.  Under the flag \<open>i\<close> a character belongs to a class when its upper
  case is the upper case of a member: the Latin class holds the ASCII letters, the
  Cyrillic class the letters U+0410 to U+044F and the letters U+1C80 to U+1C86, whose
  upper case lies in U+0410 to U+042F.
\<close>

definition isCyrillicCI :: "nat \<Rightarrow> bool" where
  "isCyrillicCI c \<longleftrightarrow> (0x410 \<le> c \<and> c \<le> 0x44F) \<or> (0x1C80 \<le> c \<and> c \<le> 0x1C86)"

text \<open>\<open>/X.*Y/\<close> for two classes: an \<open>X\<close>, then a \<open>Y\<close> before the next line terminator.\<close>

fun matchThenOnLine :: "(nat \<Rightarrow> bool) \<Rightarrow> (nat \<Rightarrow> bool) \<Rightarrow> jsstring \<Rightarrow> bool" where
  "matchThenOnLine X Y [] = False"
| "matchThenOnLine X Y (c # cs) =
     ((X c \<and> list_ex Y (takeWhile (\<lambda>d. \<not> isLineTerminator d) cs))
      \<or> matchThenOnLine X Y cs)"

definition homographPattern :: "jsstring \<Rightarrow> bool" where
  "homographPattern s \<longleftrightarrow>
     matchThenOnLine isCyrillicCI isLetter s \<or> matchThenOnLine isLetter isCyrillicCI s"

text \<open>The class \<open>[0-9@$!]\<close>.\<close>

definition isSubstitutionSymbol :: "nat \<Rightarrow> bool" where
  "isSubstitutionSymbol c \<longleftrightarrow> isDigit c \<or> c = 0x40 \<or> c = 0x24 \<or> c = 0x21"

definition handleObfuscation :: "int \<Rightarrow> PreprocessedContent \<Rightarrow> EdgeCaseResult" where
  "handleObfuscation now preprocessed =
     (let zeroWidthCount = countMatches isZeroWidth (original preprocessed);
          symbolCount = countMatches isSubstitutionSymbol (original preprocessed);
          letterCount = countMatches isLetter (original preprocessed)
      in if zeroWidthCount > 10
         then \<lparr>handled = True,
               reason = js ''Excessive zero-width characters detected (obfuscation attempt)'',
               edge_result = Some (createObfuscationResult now (original preprocessed)
                                     (js ''zero_width_abuse'')),
               recommendedAction = ActReject\<rparr>
         else if homographPattern (original preprocessed)
         then \<lparr>handled = True, reason = js ''Potential homograph attack detected'',
               edge_result = Some (createObfuscationResult now (original preprocessed)
                                     (js ''homograph_attack'')),
               recommendedAction = ActFlag\<rparr>
         else if letterCount > 0 \<and> real symbolCount / real letterCount > 0.3
         then \<lparr>handled = True, reason = js ''Excessive symbol substitution detected'',
               edge_result = Some (createObfuscationResult now (original preprocessed)
                                     (js ''symbol_substitution'')),
               recommendedAction = ActFlag\<rparr>
         else notHandled)"

definition handleNonEnglishContent :: "int \<Rightarrow> PreprocessedContent \<Rightarrow> EdgeCaseResult" where
  "handleNonEnglishContent now preprocessed =
     (if language (metadata preprocessed) = js ''unknown''
         \<and> wordCount (metadata preprocessed) > 5 \<and> wordCount (metadata preprocessed) < 20
      then \<lparr>handled = True, reason = js ''Unknown language with suspicious length'',
            edge_result = Some (createLanguageResult now (original preprocessed)),
            recommendedAction = ActFlag\<rparr>
      else notHandled)"

text \<open>The class \<open>[^\w\s.,!?@#-]\<close>.\<close>

definition isSpecialChar :: "nat \<Rightarrow> bool" where
  "isSpecialChar c \<longleftrightarrow>
     \<not> (isWordChar c \<or> isWhiteSpace c \<or> c = 0x2E \<or> c = 0x2C \<or> c = 0x21 \<or> c = 0x3F
        \<or> c = 0x40 \<or> c = 0x23 \<or> c = 0x2D)"

definition handleSpecialCharacters :: "int \<Rightarrow> PreprocessedContent \<Rightarrow> EdgeCaseResult" where
  "handleSpecialCharacters now preprocessed =
     (let specialCharCount = countMatches isSpecialChar (original preprocessed);
          totalCharCount = length (original preprocessed)
      in if totalCharCount > 50 \<and> real specialCharCount / real totalCharCount > 0.4
         then \<lparr>handled = True, reason = js ''Excessive special characters detected'',
               edge_result = Some (createSpecialCharResult now (original preprocessed)),
               recommendedAction = ActFlag\<rparr>
         else notHandled)"

definition handleContextualEdgeCases :: "int \<Rightarrow> PreprocessedContent \<Rightarrow> EdgeCaseResult" where
  "handleContextualEdgeCases now preprocessed =
     (let mentionCount = countTagged 0x40 (original preprocessed)
      in if (hasUrls (metadata preprocessed) \<or> hasHashtags (metadata preprocessed))
            \<and> wordCount (metadata preprocessed) < 3
         then \<lparr>handled = True, reason = js ''Minimal text with URLs/hashtags'',
               edge_result = Some (createContextualResult now (original preprocessed)
                                     (js ''link_spam'')),
               recommendedAction = ActFlag\<rparr>
         else if mentionCount > 5
         then \<lparr>handled = True,
               reason = js ''Excessive mentions: '' @ natToString mentionCount,
               edge_result = Some (createContextualResult now (original preprocessed)
                                     (js ''mention_spam'')),
               recommendedAction = ActFlag\<rparr>
         else notHandled)"

text \<open>
  The chain of \<open>handleEdgeCase\<close> on a preprocessed content: the first handler that
  handles the content gives the result.
\<close>

definition classify :: "int \<Rightarrow> PreprocessedContent \<Rightarrow> EdgeCaseResult" where
  "classify now preprocessed =
     (let emptyContentResult = handleEmptyContent now preprocessed in
      if handled emptyContentResult then emptyContentResult else
      let extremeLengthResult = handleExtremeLength now preprocessed in
      if handled extremeLengthResult then extremeLengthResult else
      let encodingResult = handleEncodingIssues now preprocessed in
      if handled encodingResult then encodingResult else
      let obfuscationResult = handleObfuscation now preprocessed in
      if handled obfuscationResult then obfuscationResult else
      let languageResult = handleNonEnglishContent now preprocessed in
      if handled languageResult then languageResult else
      let specialCharacterResult = handleSpecialCharacters now preprocessed in
      if handled specialCharacterResult then specialCharacterResult else
      let contextualResult = handleContextualEdgeCases now preprocessed in
      if handled contextualResult then contextualResult else
      \<lparr>handled = False, reason = js ''No edge cases detected'', edge_result = None,
       recommendedAction = ActAllow\<rparr>)"

text \<open>\<open>handleEdgeCase\<close>: a failure of the preprocessing is itself a handled case.\<close>

definition handleEdgeCase :: "Platform \<Rightarrow> int \<Rightarrow> jsstring \<Rightarrow> EdgeCaseResult" where
  "handleEdgeCase P now content =
     (case preprocess P content of
        Inr preprocessed \<Rightarrow> classify now preprocessed
      | Inl (Error message) \<Rightarrow>
          \<lparr>handled = True, reason = js ''Preprocessing error: '' @ message,
           edge_result = Some (edge_createErrorResult now content (js ''preprocessing_error'')),
           recommendedAction = ActManualReview\<rparr>)"

section \<open>Performance monitor (class PerformanceMonitor)\<close>

record PerformanceMonitor =
  processingTimes :: "real list"
  requestCount :: nat
  errorCount :: nat
  cacheHits :: nat
  cacheMisses :: nat

definition MAX_PROCESSING_TIMES :: nat where
  "MAX_PROCESSING_TIMES = 1000"

definition new_PerformanceMonitor :: PerformanceMonitor where
  "new_PerformanceMonitor =
     \<lparr>processingTimes = [], requestCount = 0, errorCount = 0, cacheHits = 0,
      cacheMisses = 0\<rparr>"

definition recordProcessingTime :: "PerformanceMonitor \<Rightarrow> real \<Rightarrow> PerformanceMonitor" where
  "recordProcessingTime pm timeMs =
     (let times = processingTimes pm @ [timeMs]
      in pm\<lparr>processingTimes :=
               (if length times > MAX_PROCESSING_TIMES
                then drop (length times - MAX_PROCESSING_TIMES) times else times),
             requestCount := requestCount pm + 1\<rparr>)"

definition recordCacheHit :: "PerformanceMonitor \<Rightarrow> PerformanceMonitor" where
  "recordCacheHit pm = pm\<lparr>cacheHits := cacheHits pm + 1\<rparr>"

definition recordCacheMiss :: "PerformanceMonitor \<Rightarrow> PerformanceMonitor" where
  "recordCacheMiss pm = pm\<lparr>cacheMisses := cacheMisses pm + 1\<rparr>"

definition recordError :: "PerformanceMonitor \<Rightarrow> PerformanceMonitor" where
  "recordError pm = pm\<lparr>errorCount := errorCount pm + 1\<rparr>"

section \<open>The services (SpamDetectionService, EnhancedSpamDetectionService)\<close>

text \<open>
  The clock readings of one call of \<open>analyzeContent\<close>: \<open>Date.now()\<close> in
  \<open>createSpecialResult\<close>, in \<open>cache.get\<close> and in \<open>cache.set\<close>, the engine's
  \<open>timer.elapsed()\<close>, and \<open>performance.now() - startTime\<close>.
\<close>

record Clock =
  edgeNow :: int
  getNow :: int
  setNow :: int
  engineElapsed :: real
  totalElapsed :: real

record SpamDetectionService =
  engine_rules :: "DetectionRule list"
  service_cache :: MemoryCache

text \<open>
  \<open>SpamDetectionService.analyzeContent\<close>: the result, or the exception that leaves the
  method (\<open>Inl\<close>), and the service afterwards.
\<close>

definition service_analyzeContent :: "Platform \<Rightarrow> SpamDetectionService \<Rightarrow> Clock \<Rightarrow> jsstring
    \<Rightarrow> (exn + DetectionResult) \<times> SpamDetectionService" where
  "service_analyzeContent P svc clk content =
     (if isBlank content then (Inl (Error (js ''Content cannot be empty'')), svc)
      else
        let hash = createContentHash P content;
            (cachedResult, cache1) = cache_get (service_cache svc) hash (getNow clk)
        in case cachedResult of
             Some cached \<Rightarrow>
               (Inr (cached\<lparr>processingTime := 0.1\<rparr>), svc\<lparr>service_cache := cache1\<rparr>)
           | None \<Rightarrow>
               (case engine_analyzeContent P (engine_rules svc) content (engineElapsed clk) of
                  Inl err \<Rightarrow> (Inl err, svc\<lparr>service_cache := cache1\<rparr>)
                | Inr result \<Rightarrow>
                    (Inr result,
                     svc\<lparr>service_cache := cache_set cache1 hash result None (setNow clk)\<rparr>)))"

record EnhancedSpamDetectionService =
  enh_rules :: "DetectionRule list"
  enh_cache :: MemoryCache
  performanceMonitor :: PerformanceMonitor

text \<open>The body of the \<open>try\<close> block of \<open>EnhancedSpamDetectionService.analyzeContent\<close>.\<close>

definition enhanced_try :: "Platform \<Rightarrow> EnhancedSpamDetectionService \<Rightarrow> Clock \<Rightarrow> jsstring
    \<Rightarrow> (exn + DetectionResult) \<times> EnhancedSpamDetectionService" where
  "enhanced_try P svc clk content =
     (if isBlank content then (Inl (Error (js ''Content cannot be empty'')), svc)
      else
        let edgeCase = handleEdgeCase P (edgeNow clk) content
        in case (if handled edgeCase then edge_result edgeCase else None) of
             Some special \<Rightarrow>
               (Inr (special\<lparr>processingTime := totalElapsed clk\<rparr>),
                svc\<lparr>performanceMonitor :=
                      recordProcessingTime (performanceMonitor svc) (totalElapsed clk)\<rparr>)
           | None \<Rightarrow>
               let hash = createContentHash P content;
                   (cachedResult, cache1) = cache_get (enh_cache svc) hash (getNow clk)
               in case cachedResult of
                    Some cached \<Rightarrow>
                      (Inr (cached\<lparr>processingTime := totalElapsed clk\<rparr>),
                       svc\<lparr>enh_cache := cache1,
                             performanceMonitor := recordCacheHit (performanceMonitor svc)\<rparr>)
                  | None \<Rightarrow>
                      let pm1 = recordCacheMiss (performanceMonitor svc)
                      in case engine_analyzeContent P (enh_rules svc) content
                                (engineElapsed clk) of
                           Inl err \<Rightarrow>
                             (Inl err, svc\<lparr>enh_cache := cache1, performanceMonitor := pm1\<rparr>)
                         | Inr result \<Rightarrow>
                             (Inr (result\<lparr>processingTime := totalElapsed clk\<rparr>),
                              svc\<lparr>enh_cache :=
                                    cache_set cache1 hash result None (setNow clk),
                                  performanceMonitor :=
                                    recordProcessingTime pm1 (totalElapsed clk)\<rparr>))"

text \<open>
  \<open>EnhancedSpamDetectionService.analyzeContent\<close>: the \<open>catch\<close> clause turns every
  exception of the \<open>try\<close> block, the one of the input validation included, into the
  fallback result.
\<close>

definition enhanced_analyzeContent :: "Platform \<Rightarrow> EnhancedSpamDetectionService \<Rightarrow> Clock
    \<Rightarrow> jsstring \<Rightarrow> (exn + DetectionResult) \<times> EnhancedSpamDetectionService" where
  "enhanced_analyzeContent P svc clk content =
     (case enhanced_try P svc clk content of
        (Inr result, svc1) \<Rightarrow> (Inr result, svc1)
      | (Inl err, svc1) \<Rightarrow>
          (Inr \<lparr>decision = UnderReview, overallScore = 0.5, resultConfidence = 0.1,
                indicators = [], processingTime = totalElapsed clk,
                contentHash = createContentHash P content\<rparr>,
           svc1\<lparr>performanceMonitor := recordError (performanceMonitor svc1)\<rparr>))"

text \<open>Concrete inputs used to exercise the theorems below.\<close>

definition demo_promotional :: SpamIndicator where
  "demo_promotional =
     \<lparr>ind_type = Promotional, severity = High, confidence = 0.9,
      evidence = [js ''Spam phrase''], weight = 0.25\<rparr>"



definition rule_ok :: DetectionRule where
  "rule_ok = \<lparr>rule_name = js ''promotional'', rule_type = Promotional, rule_weight = 0.25,
     enabled = True, execute = (\<lambda>c. Inr (Some demo_promotional))\<rparr>"

definition rule_silent :: DetectionRule where
  "rule_silent = \<lparr>rule_name = js ''caps_abuse'', rule_type = CapsAbuse, rule_weight = 0.15,
     enabled = True, execute = (\<lambda>c. Inr None)\<rparr>"

definition rule_throwing :: DetectionRule where
  "rule_throwing = \<lparr>rule_name = js ''profanity'', rule_type = Profanity, rule_weight = 0.3,
     enabled = True, execute = (\<lambda>c. Inl (Error (js ''filter failed'')))\<rparr>"

text \<open>
  A stand-in for the platform: the digest is replaced by a padding of the text, lower
  case is that of ASCII, and the normalised text is the text itself, which is what the
  preprocessor computes on the inputs used below.
\<close>

definition demo_platform :: Platform where
  "demo_platform = \<lparr>sha256_hex = (\<lambda>s. s @ js ''0000000000000000''),
     toLowerCase = map asciiLower, normalizeText = (\<lambda>s. s)\<rparr>"

definition demo_clock :: Clock where
  "demo_clock = \<lparr>edgeNow = 1000, getNow = 1000, setNow = 1001, engineElapsed = 2,
     totalElapsed = 3\<rparr>"

definition demo_five_words :: jsstring where
  "demo_five_words = js ''el sol se va ya''"

definition demo_six_words :: jsstring where
  "demo_six_words = js ''el sol se va ya hoy''"

text \<open>The preprocessed content of a text that the normalisation leaves unchanged.\<close>

definition preprocessed_of :: "jsstring \<Rightarrow> PreprocessedContent" where
  "preprocessed_of content =
     \<lparr>original = content, normalized = content, metadata = generateMetadata content content\<rparr>"

definition demo_enhanced :: EnhancedSpamDetectionService where
  "demo_enhanced = \<lparr>enh_rules = [rule_ok, rule_throwing, rule_silent],
     enh_cache = default_MemoryCache, performanceMonitor = new_PerformanceMonitor\<rparr>"

definition demo_service :: SpamDetectionService where
  "demo_service = \<lparr>engine_rules = [rule_ok, rule_throwing, rule_silent],
     service_cache = default_MemoryCache\<rparr>"

definition demo_result :: DetectionResult where
  "demo_result = createEmptyResult (js ''0123456789abcdef'') 1"



text \<open>A cache with an entry of ttl 500 and an entry of the default ttl.\<close>

definition demo_expiring_cache :: MemoryCache where
  "demo_expiring_cache =
     cache_set (cache_set (new_MemoryCache 10 7200000) (js ''a'') demo_result (Some 500) 1000)
       (js ''b'') demo_result None 1000"


section \<open>Properties of the aggregation engine\<close>












section \<open>Properties of the rule pipeline\<close>

lemma promise_all_safe:
  "promise_all (map (\<lambda>rule. executeRuleSafely rule content) rs) =
     Inr (map (\<lambda>rule. case execute rule content of Inl e \<Rightarrow> None | Inr i \<Rightarrow> i) rs)"
  by (induction rs) (simp_all add: executeRuleSafely_def split: sum.splits)

lemma map_filter_id_map:
  "List.map_filter id (map f xs) = List.map_filter f xs"
  by (induction xs) (simp_all split: option.splits)

lemma map_filter_append:
  "List.map_filter f (xs @ ys) = List.map_filter f xs @ List.map_filter f ys"
  by (induction xs) (simp_all split: option.splits)

lemma engine_try_eq:
  "engine_try rules content h t =
     Inr (calculateFinalDecision
            (List.map_filter (\<lambda>rule. case execute rule content of Inl e \<Rightarrow> None | Inr i \<Rightarrow> i)
               (filter enabled rules)) h t)"
  by (simp add: engine_try_def getEnabledRules_def promise_all_safe map_filter_id_map)

lemma engine_analyzeContent_eq:
  "engine_analyzeContent P rules content t =
     Inr (if isBlank content then createEmptyResult (createContentHash P content) t
          else calculateFinalDecision
            (List.map_filter (\<lambda>rule. case execute rule content of Inl e \<Rightarrow> None | Inr i \<Rightarrow> i)
               (filter enabled rules)) (createContentHash P content) t)"
  by (simp add: engine_analyzeContent_def engine_try_eq Let_def)

lemma map_filter_drop_failing:
  assumes "execute r content = Inl err"
  shows "List.map_filter (\<lambda>rule. case execute rule content of Inl e \<Rightarrow> None | Inr i \<Rightarrow> i)
           (filter enabled (rs1 @ r # rs2)) =
         List.map_filter (\<lambda>rule. case execute rule content of Inl e \<Rightarrow> None | Inr i \<Rightarrow> i)
           (filter enabled (rs1 @ rs2))"
  using assms by (simp add: map_filter_append)

lemma not_blank_Hi: "\<not> isBlank (js ''Hi'')"
  by (simp add: isBlank_def trim_def js_def isWhiteSpace_def)

text \<open>
  C8.  If a rule throws on a non-blank content, the engine returns the aggregation of
  the indicators of the other enabled rules, which is the result of the engine without
  that rule, and both services return a result: no exception of the rule reaches the
  caller.
\<close>

theorem failing_rule_contributes_nothing:
  assumes throws: "execute r content = Inl err" and nonblank: "\<not> isBlank content"
  shows "engine_analyzeContent P (rs1 @ r # rs2) content t =
           Inr (calculateFinalDecision
                  (List.map_filter
                     (\<lambda>rule. case execute rule content of Inl e \<Rightarrow> None | Inr i \<Rightarrow> i)
                     (filter enabled (rs1 @ rs2)))
                  (createContentHash P content) t)
       \<and> engine_analyzeContent P (rs1 @ r # rs2) content t =
           engine_analyzeContent P (rs1 @ rs2) content t
       \<and> (\<exists>v. fst (service_analyzeContent P
                       \<lparr>engine_rules = rs1 @ r # rs2, service_cache = c\<rparr> clk content) = Inr v)
       \<and> (\<exists>v. fst (enhanced_analyzeContent P
                       \<lparr>enh_rules = rs1 @ r # rs2, enh_cache = c, performanceMonitor = pm\<rparr>
                       clk content) = Inr v)"
proof -
  have a: "engine_analyzeContent P (rs1 @ r # rs2) content t =
           Inr (calculateFinalDecision
                  (List.map_filter
                     (\<lambda>rule. case execute rule content of Inl e \<Rightarrow> None | Inr i \<Rightarrow> i)
                     (filter enabled (rs1 @ rs2)))
                  (createContentHash P content) t)"
    using nonblank
    by (simp only: engine_analyzeContent_eq map_filter_drop_failing [OF throws] if_False)
  have b: "engine_analyzeContent P (rs1 @ r # rs2) content t =
           engine_analyzeContent P (rs1 @ rs2) content t"
    by (simp only: engine_analyzeContent_eq map_filter_drop_failing [OF throws])
  have c: "\<exists>v. fst (service_analyzeContent P
                       \<lparr>engine_rules = rs1 @ r # rs2, service_cache = c\<rparr> clk content) = Inr v"
    using nonblank
    by (simp add: service_analyzeContent_def engine_analyzeContent_eq Let_def
        split: prod.splits option.splits)
  have d: "\<exists>v. fst (enhanced_analyzeContent P
                       \<lparr>enh_rules = rs1 @ r # rs2, enh_cache = c, performanceMonitor = pm\<rparr>
                       clk content) = Inr v"
    by (simp add: enhanced_analyzeContent_def split: prod.splits sum.splits)
  from a b c d show ?thesis by blast
qed

theorem failing_rule_contributes_nothing_witness:
  "execute rule_throwing (js ''Hi'') = Inl (Error (js ''filter failed''))
   \<and> \<not> isBlank (js ''Hi'')
   \<and> engine_analyzeContent demo_platform [rule_ok, rule_throwing, rule_silent] (js ''Hi'') 2 =
       Inr (calculateFinalDecision [demo_promotional]
              (createContentHash demo_platform (js ''Hi'')) 2)"
  using failing_rule_contributes_nothing [of rule_throwing "js ''Hi''"
      "Error (js ''filter failed'')" demo_platform "[rule_ok]" "[rule_silent]" 2
      default_MemoryCache demo_clock new_PerformanceMonitor] not_blank_Hi
  by (simp add: rule_throwing_def rule_ok_def rule_silent_def)

section \<open>Properties of the edge-case handler\<close>

lemma handleEmptyContent_special:
  "handled (handleEmptyContent now p) \<Longrightarrow>
     \<exists>c dec rs inds. edge_result (handleEmptyContent now p) =
        Some (createSpecialResult now c dec rs inds)"
  by (auto simp add: handleEmptyContent_def notHandled_def createEmptyContentResult_def
      split: if_splits)

lemma handleExtremeLength_special:
  "handled (handleExtremeLength now p) \<Longrightarrow>
     \<exists>c dec rs inds. edge_result (handleExtremeLength now p) =
        Some (createSpecialResult now c dec rs inds)"
  by (auto simp add: handleExtremeLength_def notHandled_def createShortContentResult_def
      createLongContentResult_def split: if_splits)

lemma handleEncodingIssues_special:
  "handled (handleEncodingIssues now p) \<Longrightarrow>
     \<exists>c dec rs inds. edge_result (handleEncodingIssues now p) =
        Some (createSpecialResult now c dec rs inds)"
  by (auto simp add: handleEncodingIssues_def notHandled_def createEncodingResult_def Let_def
      split: if_splits)

lemma handleObfuscation_special:
  "handled (handleObfuscation now p) \<Longrightarrow>
     \<exists>c dec rs inds. edge_result (handleObfuscation now p) =
        Some (createSpecialResult now c dec rs inds)"
  by (auto simp add: handleObfuscation_def notHandled_def createObfuscationResult_def Let_def
      split: if_splits)

lemma handleNonEnglishContent_special:
  "handled (handleNonEnglishContent now p) \<Longrightarrow>
     \<exists>c dec rs inds. edge_result (handleNonEnglishContent now p) =
        Some (createSpecialResult now c dec rs inds)"
  by (auto simp add: handleNonEnglishContent_def notHandled_def createLanguageResult_def
      split: if_splits)

lemma handleSpecialCharacters_special:
  "handled (handleSpecialCharacters now p) \<Longrightarrow>
     \<exists>c dec rs inds. edge_result (handleSpecialCharacters now p) =
        Some (createSpecialResult now c dec rs inds)"
  by (auto simp add: handleSpecialCharacters_def notHandled_def createSpecialCharResult_def
      Let_def split: if_splits)

lemma handleContextualEdgeCases_special:
  "handled (handleContextualEdgeCases now p) \<Longrightarrow>
     \<exists>c dec rs inds. edge_result (handleContextualEdgeCases now p) =
        Some (createSpecialResult now c dec rs inds)"
  by (auto simp add: handleContextualEdgeCases_def notHandled_def createContextualResult_def
      Let_def split: if_splits)

lemma classify_cases:
  "classify now p =
     (if handled (handleEmptyContent now p) then handleEmptyContent now p
      else if handled (handleExtremeLength now p) then handleExtremeLength now p
      else if handled (handleEncodingIssues now p) then handleEncodingIssues now p
      else if handled (handleObfuscation now p) then handleObfuscation now p
      else if handled (handleNonEnglishContent now p) then handleNonEnglishContent now p
      else if handled (handleSpecialCharacters now p) then handleSpecialCharacters now p
      else if handled (handleContextualEdgeCases now p) then handleContextualEdgeCases now p
      else \<lparr>handled = False, reason = js ''No edge cases detected'', edge_result = None,
            recommendedAction = ActAllow\<rparr>)"
  by (simp add: classify_def Let_def)

lemma classify_special:
  assumes "handled (classify now p)"
  shows "\<exists>c dec rs inds. edge_result (classify now p) =
            Some (createSpecialResult now c dec rs inds)"
  using assms handleEmptyContent_special [of now p] handleExtremeLength_special [of now p]
    handleEncodingIssues_special [of now p] handleObfuscation_special [of now p]
    handleNonEnglishContent_special [of now p] handleSpecialCharacters_special [of now p]
    handleContextualEdgeCases_special [of now p]
  unfolding classify_cases by (simp split: if_splits)

lemma handleEdgeCase_special:
  assumes "handled (handleEdgeCase P now content)"
  shows "\<exists>c dec rs inds. edge_result (handleEdgeCase P now content) =
            Some (createSpecialResult now c dec rs inds)"
proof (cases "preprocess P content")
  case (Inl err)
  then show ?thesis
    by (cases err) (auto simp add: handleEdgeCase_def edge_createErrorResult_def)
next
  case (Inr pre)
  with assms classify_special [of now pre] show ?thesis
    by (simp add: handleEdgeCase_def)
qed

lemma createSpecialResult_constants:
  "overallScore (createSpecialResult now c dec rs inds) =
     (if decision (createSpecialResult now c dec rs inds) = Reject then 0.9
      else if decision (createSpecialResult now c dec rs inds) = Flag then 0.5 else 0.3)
   \<and> resultConfidence (createSpecialResult now c dec rs inds) = 0.8"
  by (simp add: createSpecialResult_def)

text \<open>
  C7.  When the edge-case handler handles a non-blank content, the enhanced service
  returns the handler's result with only the processing time replaced, and that result
  carries the fixed constants: overall score 0.9 for the decision \<open>reject\<close>, 0.5 for
  \<open>flag\<close> and 0.3 otherwise, and confidence 0.8.
\<close>

theorem short_circuit_constants:
  assumes h: "handled (handleEdgeCase P (edgeNow clk) content)"
    and nonblank: "\<not> isBlank content"
  shows "\<exists>r. edge_result (handleEdgeCase P (edgeNow clk) content) = Some r
           \<and> fst (enhanced_analyzeContent P svc clk content) =
               Inr (r\<lparr>processingTime := totalElapsed clk\<rparr>)
           \<and> overallScore r =
               (if decision r = Reject then 0.9 else if decision r = Flag then 0.5 else 0.3)
           \<and> resultConfidence r = 0.8"
proof -
  from handleEdgeCase_special [OF h] obtain c dec rs inds where
    r: "edge_result (handleEdgeCase P (edgeNow clk) content) =
          Some (createSpecialResult (edgeNow clk) c dec rs inds)"
    by blast
  have "fst (enhanced_analyzeContent P svc clk content) =
          Inr ((createSpecialResult (edgeNow clk) c dec rs inds)
                 \<lparr>processingTime := totalElapsed clk\<rparr>)"
    using h nonblank r by (simp add: enhanced_analyzeContent_def enhanced_try_def Let_def)
  with r createSpecialResult_constants [of "edgeNow clk" c dec rs inds] show ?thesis
    by blast
qed

lemma handleEdgeCase_Hi:
  "handleEdgeCase demo_platform now (js ''Hi'') =
     \<lparr>handled = True, reason = js ''Extremely short content'',
      edge_result = Some (createShortContentResult now (js ''Hi'')),
      recommendedAction = ActFlag\<rparr>"
  by (simp add: handleEdgeCase_def preprocess_def demo_platform_def classify_cases
      handleEmptyContent_def handleExtremeLength_def generateMetadata_def wordsOf_def
      trim_def js_def isWhiteSpace_def notHandled_def Let_def)

theorem short_circuit_constants_witness:
  "handled (handleEdgeCase demo_platform (edgeNow demo_clock) (js ''Hi''))
   \<and> \<not> isBlank (js ''Hi'')
   \<and> fst (enhanced_analyzeContent demo_platform
            \<lparr>enh_rules = [], enh_cache = default_MemoryCache,
             performanceMonitor = new_PerformanceMonitor\<rparr> demo_clock (js ''Hi'')) =
       Inr \<lparr>decision = Flag, overallScore = 0.5, resultConfidence = 0.8, indicators = [],
            processingTime = 3, contentHash = js ''edge_case_1000''\<rparr>"
proof -
  let ?svc = "\<lparr>enh_rules = [], enh_cache = default_MemoryCache,
               performanceMonitor = new_PerformanceMonitor\<rparr>"
  have h: "handled (handleEdgeCase demo_platform (edgeNow demo_clock) (js ''Hi''))"
    by (simp add: handleEdgeCase_Hi)
  from short_circuit_constants [OF h not_blank_Hi, of ?svc]
  have "fst (enhanced_analyzeContent demo_platform ?svc demo_clock (js ''Hi'')) =
          Inr ((createShortContentResult (edgeNow demo_clock) (js ''Hi''))
                 \<lparr>processingTime := totalElapsed demo_clock\<rparr>)"
    by (simp add: handleEdgeCase_Hi)
  moreover have "(createShortContentResult (edgeNow demo_clock) (js ''Hi''))
                   \<lparr>processingTime := totalElapsed demo_clock\<rparr> =
      \<lparr>decision = Flag, overallScore = 0.5, resultConfidence = 0.8, indicators = [],
       processingTime = 3, contentHash = js ''edge_case_1000''\<rparr>"
    by (simp add: createShortContentResult_def createSpecialResult_def demo_clock_def
        numberToString_def js_def)
  ultimately show ?thesis
    using h not_blank_Hi by simp
qed

lemmas char_class_defs = isWhiteSpace_def isDigit_def isUpper_def isLower_def isLetter_def
  isWordChar_def isLineTerminator_def asciiLower_def isUnicodeIssue_def isZeroWidth_def
  isCyrillicCI_def isSubstitutionSymbol_def isSpecialChar_def isEmojiCodePoint_def

lemma metadata_five_words:
  "generateMetadata demo_five_words demo_five_words =
     \<lparr>hasEmojis = False, hasUrls = False, hasHashtags = False, hasMentions = False,
      wordCount = 5, characterCount = 15, language = js ''unknown'',
      encoding = js ''utf-8''\<rparr>"
  by (simp add: generateMetadata_def demo_five_words_def js_def wordsOf_def trim_def
      detectBasicLanguage_def englishWords_def urlPrefix_def char_class_defs Let_def)

lemma metadata_six_words:
  "generateMetadata demo_six_words demo_six_words =
     \<lparr>hasEmojis = False, hasUrls = False, hasHashtags = False, hasMentions = False,
      wordCount = 6, characterCount = 19, language = js ''unknown'',
      encoding = js ''utf-8''\<rparr>"
  by (simp add: generateMetadata_def demo_six_words_def js_def wordsOf_def trim_def
      detectBasicLanguage_def englishWords_def urlPrefix_def char_class_defs Let_def)

lemma earlier_handlers_five_words:
  "\<not> handled (handleEmptyContent now (preprocessed_of demo_five_words))
   \<and> \<not> handled (handleExtremeLength now (preprocessed_of demo_five_words))
   \<and> \<not> handled (handleEncodingIssues now (preprocessed_of demo_five_words))
   \<and> \<not> handled (handleObfuscation now (preprocessed_of demo_five_words))"
  by (simp add: preprocessed_of_def metadata_five_words handleEmptyContent_def
      handleExtremeLength_def handleEncodingIssues_def handleObfuscation_def notHandled_def
      homographPattern_def countMatches_def Let_def)
    (simp add: demo_five_words_def js_def trim_def char_class_defs)

lemma earlier_handlers_six_words:
  "\<not> handled (handleEmptyContent now (preprocessed_of demo_six_words))
   \<and> \<not> handled (handleExtremeLength now (preprocessed_of demo_six_words))
   \<and> \<not> handled (handleEncodingIssues now (preprocessed_of demo_six_words))
   \<and> \<not> handled (handleObfuscation now (preprocessed_of demo_six_words))"
  by (simp add: preprocessed_of_def metadata_six_words handleEmptyContent_def
      handleExtremeLength_def handleEncodingIssues_def handleObfuscation_def notHandled_def
      homographPattern_def countMatches_def Let_def)
    (simp add: demo_six_words_def js_def trim_def char_class_defs)

lemma later_handlers_five_words:
  "\<not> handled (handleNonEnglishContent now (preprocessed_of demo_five_words))
   \<and> \<not> handled (handleSpecialCharacters now (preprocessed_of demo_five_words))
   \<and> \<not> handled (handleContextualEdgeCases now (preprocessed_of demo_five_words))"
  by (simp add: preprocessed_of_def metadata_five_words handleNonEnglishContent_def
      handleSpecialCharacters_def handleContextualEdgeCases_def notHandled_def
      countMatches_def Let_def)
    (simp add: demo_five_words_def js_def char_class_defs)

text \<open>
  C9 (as amended).  A preprocessed content whose language is \<open>unknown\<close>, whose word count
  lies between 6 and 19 inclusive, and that the four earlier handlers do not handle, is
  handled by the classifier with the recommended action \<open>flag\<close> and a result whose
  decision is \<open>flag\<close>.
\<close>

theorem unknown_language_is_flagged:
  assumes unknown: "language (metadata p) = js ''unknown''"
    and lower: "6 \<le> wordCount (metadata p)" and upper: "wordCount (metadata p) \<le> 19"
    and earlier: "\<not> handled (handleEmptyContent now p)"
      "\<not> handled (handleExtremeLength now p)"
      "\<not> handled (handleEncodingIssues now p)"
      "\<not> handled (handleObfuscation now p)"
  shows "handled (classify now p)
       \<and> recommendedAction (classify now p) = ActFlag
       \<and> edge_result (classify now p) = Some (createLanguageResult now (original p))
       \<and> decision (createLanguageResult now (original p)) = Flag"
proof -
  have "handleNonEnglishContent now p =
     \<lparr>handled = True, reason = js ''Unknown language with suspicious length'',
      edge_result = Some (createLanguageResult now (original p)),
      recommendedAction = ActFlag\<rparr>"
    using unknown lower upper by (simp add: handleNonEnglishContent_def)
  then have "classify now p =
     \<lparr>handled = True, reason = js ''Unknown language with suspicious length'',
      edge_result = Some (createLanguageResult now (original p)),
      recommendedAction = ActFlag\<rparr>"
    using earlier by (simp add: classify_cases)
  then show ?thesis
    by (simp add: createLanguageResult_def createSpecialResult_def)
qed

theorem unknown_language_is_flagged_witness:
  "language (metadata (preprocessed_of demo_six_words)) = js ''unknown''
   \<and> wordCount (metadata (preprocessed_of demo_six_words)) = 6
   \<and> \<not> handled (handleEmptyContent 1000 (preprocessed_of demo_six_words))
   \<and> \<not> handled (handleExtremeLength 1000 (preprocessed_of demo_six_words))
   \<and> \<not> handled (handleEncodingIssues 1000 (preprocessed_of demo_six_words))
   \<and> \<not> handled (handleObfuscation 1000 (preprocessed_of demo_six_words))
   \<and> handled (classify 1000 (preprocessed_of demo_six_words))
   \<and> recommendedAction (classify 1000 (preprocessed_of demo_six_words)) = ActFlag"
  using unknown_language_is_flagged [of "preprocessed_of demo_six_words" 1000]
    earlier_handlers_six_words [of 1000]
  by (simp add: preprocessed_of_def metadata_six_words)

text \<open>
  The bound of five words does not hold: a text of five words in an unknown language
  that no earlier handler handles is not handled at all.
\<close>

theorem unknown_language_five_words_counterexample:
  "language (metadata (preprocessed_of demo_five_words)) = js ''unknown''
   \<and> wordCount (metadata (preprocessed_of demo_five_words)) = 5
   \<and> \<not> handled (handleEmptyContent 1000 (preprocessed_of demo_five_words))
   \<and> \<not> handled (handleExtremeLength 1000 (preprocessed_of demo_five_words))
   \<and> \<not> handled (handleEncodingIssues 1000 (preprocessed_of demo_five_words))
   \<and> \<not> handled (handleObfuscation 1000 (preprocessed_of demo_five_words))
   \<and> \<not> handled (classify 1000 (preprocessed_of demo_five_words))
   \<and> recommendedAction (classify 1000 (preprocessed_of demo_five_words)) \<noteq> ActFlag
   \<and> \<not> handled (handleEdgeCase demo_platform 1000 demo_five_words)"
proof -
  have pre: "preprocess demo_platform demo_five_words = Inr (preprocessed_of demo_five_words)"
    by (simp add: preprocess_def demo_platform_def preprocessed_of_def Let_def)
      (simp add: demo_five_words_def js_def)
  have cls: "classify 1000 (preprocessed_of demo_five_words) =
     \<lparr>handled = False, reason = js ''No edge cases detected'', edge_result = None,
      recommendedAction = ActAllow\<rparr>"
    using earlier_handlers_five_words [of 1000] later_handlers_five_words [of 1000]
    by (simp add: classify_cases)
  show ?thesis
    using earlier_handlers_five_words [of 1000]
    by (simp add: cls pre handleEdgeCase_def) (simp add: preprocessed_of_def metadata_five_words)
qed

section \<open>Input validation of the two services\<close>

lemma trim_empty_iff: "trim s = [] \<longleftrightarrow> list_all isWhiteSpace s"
proof
  assume "trim s = []"
  then have all: "\<forall>c\<in>set (dropWhile isWhiteSpace s). isWhiteSpace c"
    by (simp add: trim_def dropWhile_eq_Nil_conv)
  have "dropWhile isWhiteSpace s = []"
  proof (rule ccontr)
    assume ne: "dropWhile isWhiteSpace s \<noteq> []"
    then have "\<not> isWhiteSpace (hd (dropWhile isWhiteSpace s))"
      by (rule hd_dropWhile)
    moreover have "hd (dropWhile isWhiteSpace s) \<in> set (dropWhile isWhiteSpace s)"
      using ne by simp
    ultimately show False using all by blast
  qed
  then show "list_all isWhiteSpace s"
    by (simp add: dropWhile_eq_Nil_conv list_all_iff)
next
  assume "list_all isWhiteSpace s"
  then have d: "dropWhile isWhiteSpace s = []"
    by (simp add: dropWhile_eq_Nil_conv list_all_iff)
  show "trim s = []" unfolding trim_def d by simp
qed

lemma isBlank_iff: "isBlank content \<longleftrightarrow> list_all isWhiteSpace content"
  using trim_empty_iff [of content] by (auto simp add: isBlank_def)

text \<open>
  C1, evaluated on the enhanced service: for an empty or blank text the exception of the
  input validation is thrown inside the \<open>try\<close> block and caught by its \<open>catch\<close> clause,
  so the caller receives the fallback result (\<open>under_review\<close>, score 0.5, confidence 0.1)
  and no exception.
\<close>

theorem enhanced_blank_returns_fallback:
  assumes blank: "isBlank content"
  shows "fst (enhanced_analyzeContent P svc clk content) =
           Inr \<lparr>decision = UnderReview, overallScore = 0.5, resultConfidence = 0.1,
                indicators = [], processingTime = totalElapsed clk,
                contentHash = createContentHash P content\<rparr>"
  using blank by (simp add: enhanced_analyzeContent_def enhanced_try_def)

theorem enhanced_blank_returns_fallback_witness:
  "isBlank []
   \<and> fst (enhanced_analyzeContent demo_platform demo_enhanced demo_clock []) =
       Inr \<lparr>decision = UnderReview, overallScore = 0.5, resultConfidence = 0.1,
            indicators = [], processingTime = 3, contentHash = js ''0000000000000000''\<rparr>"
  using enhanced_blank_returns_fallback [of "[]" demo_platform demo_enhanced demo_clock]
  by (simp add: isBlank_def createContentHash_def demo_platform_def trim_def demo_clock_def
      js_def)

text \<open>No call of the enhanced service lets an exception escape.\<close>

theorem enhanced_never_raises:
  "\<exists>v. fst (enhanced_analyzeContent P svc clk content) = Inr v"
  by (simp add: enhanced_analyzeContent_def split: prod.splits sum.splits)

text \<open>
  The plain service raises exactly on the texts that are empty or consist of white space
  only, and returns a result on every other text.
\<close>

theorem service_raises_iff_blank:
  "(\<exists>err. fst (service_analyzeContent P svc clk content) = Inl err)
     = list_all isWhiteSpace content
   \<and> (\<exists>v. fst (service_analyzeContent P svc clk content) = Inr v)
     = (\<not> list_all isWhiteSpace content)"
proof (cases "isBlank content")
  case True
  then show ?thesis
    using isBlank_iff [of content] by (simp add: service_analyzeContent_def)
next
  case False
  then have "\<exists>v. fst (service_analyzeContent P svc clk content) = Inr v"
    by (simp add: service_analyzeContent_def engine_analyzeContent_eq Let_def
        split: prod.splits option.splits)
  then show ?thesis
    using False isBlank_iff [of content] by auto
qed

section \<open>Properties of the result cache\<close>
















lemma js_inject: "js a = js b \<longleftrightarrow> a = b"
  by (simp add: js_def inj_map_eq_map inj_on_def)



lemma cache_set_lookup:
  "map_of (cache (cache_set c k r ttlArg t0)) k =
     Some \<lparr>entry_value = r, timestamp = t0, hits = 0,
           ttl = Some (case ttlArg of None \<Rightarrow> defaultTtl c
                       | Some t \<Rightarrow> if t = 0 then defaultTtl c else t)\<rparr>"
  by (simp add: cache_set_def Let_def update_conv')

lemma cache_set_counters:
  "misses (cache_set c k r ttlArg t0) = misses c
   \<and> total_hits (cache_set c k r ttlArg t0) = total_hits c"
  by (simp add: cache_set_def evictLeastRecentlyUsed_def Let_def split: option.splits)

lemma cache_get_expired:
  assumes "map_of (cache c) k = Some e" and "isExpired e now"
  shows "cache_get c k now =
           (None, c\<lparr>cache := AList.delete k (cache c), misses := misses c + 1\<rparr>)"
  using assms by (simp add: cache_get_def)


lemma cleanup_loop_eq:
  "cleanup_loop now es (m, n) =
     (filter (\<lambda>(k, e). k \<notin> fst ` {x \<in> set es. isExpired (snd x) now}) m,
      n + length (filter (\<lambda>(k, e). isExpired e now) es))"
proof (induction es arbitrary: m n)
  case Nil
  then show ?case by simp
next
  case (Cons a rest)
  obtain key entry where a: "a = (key, entry)" by (cases a)
  show ?case
  proof (cases "isExpired entry now")
    case True
    have "{x \<in> set (a # rest). isExpired (snd x) now} =
            insert a {x \<in> set rest. isExpired (snd x) now}"
      using True by (auto simp add: a)
    then have S: "fst ` {x \<in> set (a # rest). isExpired (snd x) now} =
            insert key (fst ` {x \<in> set rest. isExpired (snd x) now})"
      by (simp add: a)
    have "filter (\<lambda>(k, e). k \<notin> fst ` {x \<in> set rest. isExpired (snd x) now})
            (AList.delete key m) =
          filter (\<lambda>(k, e). k \<notin> fst ` {x \<in> set (a # rest). isExpired (snd x) now}) m"
      unfolding AList.delete_eq filter_filter S
      by (rule filter_cong) auto
    then show ?thesis using True Cons.IH [of "AList.delete key m" "n + 1"] by (simp add: a)
  next
    case False
    have "{x \<in> set (a # rest). isExpired (snd x) now} = {x \<in> set rest. isExpired (snd x) now}"
      using False by (auto simp add: a)
    then show ?thesis using False Cons.IH [of m n] by (simp add: a)
  qed
qed

lemma cleanup_eq:
  assumes dist: "distinct (map fst (cache c))"
  shows "cleanup c now =
     (length (filter (\<lambda>(k, e). isExpired e now) (cache c)),
      c\<lparr>cache := filter (\<lambda>(k, e). \<not> isExpired e now) (cache c)\<rparr>)"
proof -
  have "filter (\<lambda>(k, e). k \<notin> fst ` {x \<in> set (cache c). isExpired (snd x) now}) (cache c) =
        filter (\<lambda>(k, e). \<not> isExpired e now) (cache c)"
  proof (rule filter_cong [OF refl])
    fix x assume x: "x \<in> set (cache c)"
    obtain k e where xe: "x = (k, e)" by (cases x)
    have "k \<in> fst ` {x \<in> set (cache c). isExpired (snd x) now} \<longleftrightarrow> isExpired e now"
    proof
      assume "k \<in> fst ` {x \<in> set (cache c). isExpired (snd x) now}"
      then obtain e' where e': "(k, e') \<in> set (cache c)" "isExpired e' now" by auto
      have "e' = e" using dist e'(1) x xe by (metis eq_key_imp_eq_value)
      with e'(2) show "isExpired e now" by simp
    next
      assume "isExpired e now"
      then show "k \<in> fst ` {x \<in> set (cache c). isExpired (snd x) now}"
        using x xe by force
    qed
    then show "(case x of (k, e) \<Rightarrow> k \<notin> fst ` {x \<in> set (cache c). isExpired (snd x) now}) =
          (case x of (k, e) \<Rightarrow> \<not> isExpired e now)"
      by (simp add: xe)
  qed
  then show ?thesis by (simp add: cleanup_def cleanup_loop_eq)
qed

text \<open>
  C6 (as amended).  \<open>set\<close> stores the entry with its insertion time and the effective
  time-to-live \<open>T\<close>: the ttl argument when it is given and not 0, the default otherwise.
  When \<open>T\<close> is not 0, a \<open>get\<close> at a time greater than the insertion time plus \<open>T\<close> reports
  the entry absent, removes it from the map and counts a miss (and no hit); the same
  holds for every stored entry with a non-zero ttl, whenever it is read.  \<open>cleanup\<close>
  removes exactly the entries that are expired in this sense and returns their number.
\<close>

theorem expiry_on_read_and_cleanup:
  "map_of (cache (cache_set c k r ttlArg t0)) k =
      Some \<lparr>entry_value = r, timestamp = t0, hits = 0,
            ttl = Some (case ttlArg of None \<Rightarrow> defaultTtl c
                        | Some t \<Rightarrow> if t = 0 then defaultTtl c else t)\<rparr>
   \<and> ((case ttlArg of None \<Rightarrow> defaultTtl c | Some t \<Rightarrow> if t = 0 then defaultTtl c else t) \<noteq> 0
       \<and> t0 + (case ttlArg of None \<Rightarrow> defaultTtl c
                | Some t \<Rightarrow> if t = 0 then defaultTtl c else t) < now
      \<longrightarrow> fst (cache_get (cache_set c k r ttlArg t0) k now) = None
        \<and> map_of (cache (snd (cache_get (cache_set c k r ttlArg t0) k now))) k = None
        \<and> misses (snd (cache_get (cache_set c k r ttlArg t0) k now)) = misses c + 1
        \<and> total_hits (snd (cache_get (cache_set c k r ttlArg t0) k now)) = total_hits c)
   \<and> (map_of (cache c) k = Some e \<and> ttl e = Some T \<and> T \<noteq> 0 \<and> timestamp e + T < now
      \<longrightarrow> cache_get c k now =
            (None, c\<lparr>cache := AList.delete k (cache c), misses := misses c + 1\<rparr>)
        \<and> map_of (cache (snd (cache_get c k now))) k = None)
   \<and> (distinct (map fst (cache c))
      \<longrightarrow> cleanup c now =
            (length (filter (\<lambda>(k, e). isExpired e now) (cache c)),
             c\<lparr>cache := filter (\<lambda>(k, e). \<not> isExpired e now) (cache c)\<rparr>)
        \<and> list_all (\<lambda>(k, e). \<not> isExpired e now) (cache (snd (cleanup c now))))"
proof -
  let ?T = "case ttlArg of None \<Rightarrow> defaultTtl c | Some t \<Rightarrow> if t = 0 then defaultTtl c else t"
  let ?c1 = "cache_set c k r ttlArg t0"
  let ?e1 = "\<lparr>entry_value = r, timestamp = t0, hits = 0, ttl = Some ?T\<rparr>"
  have stored: "map_of (cache ?c1) k = Some ?e1"
    by (rule cache_set_lookup)
  have after_set: "fst (cache_get ?c1 k now) = None
        \<and> map_of (cache (snd (cache_get ?c1 k now))) k = None
        \<and> misses (snd (cache_get ?c1 k now)) = misses c + 1
        \<and> total_hits (snd (cache_get ?c1 k now)) = total_hits c"
    if "?T \<noteq> 0 \<and> t0 + ?T < now"
  proof -
    have "isExpired ?e1 now" using that by (simp add: isExpired_def)
    then have "cache_get ?c1 k now =
        (None, ?c1\<lparr>cache := AList.delete k (cache ?c1), misses := misses ?c1 + 1\<rparr>)"
      using stored by (rule cache_get_expired [rotated])
    then show ?thesis
      using cache_set_counters [of c k r ttlArg t0] by (simp add: delete_conv')
  qed
  have general: "cache_get c k now =
            (None, c\<lparr>cache := AList.delete k (cache c), misses := misses c + 1\<rparr>)
        \<and> map_of (cache (snd (cache_get c k now))) k = None"
    if "map_of (cache c) k = Some e \<and> ttl e = Some T \<and> T \<noteq> 0 \<and> timestamp e + T < now"
  proof -
    have "isExpired e now" using that by (simp add: isExpired_def)
    then have "cache_get c k now =
            (None, c\<lparr>cache := AList.delete k (cache c), misses := misses c + 1\<rparr>)"
      using that cache_get_expired [of c k e now] by simp
    then show ?thesis by (simp add: delete_conv')
  qed
  have clean: "cleanup c now =
            (length (filter (\<lambda>(k, e). isExpired e now) (cache c)),
             c\<lparr>cache := filter (\<lambda>(k, e). \<not> isExpired e now) (cache c)\<rparr>)
        \<and> list_all (\<lambda>(k, e). \<not> isExpired e now) (cache (snd (cleanup c now)))"
    if "distinct (map fst (cache c))"
    using cleanup_eq [OF that, of now] by (simp add: list_all_iff)
  from stored after_set general clean show ?thesis by blast
qed

lemma demo_expiring_cache_eq:
  "demo_expiring_cache =
     \<lparr>cache =
        [(js ''a'', \<lparr>entry_value = demo_result, timestamp = 1000, hits = 0, ttl = Some 500\<rparr>),
         (js ''b'', \<lparr>entry_value = demo_result, timestamp = 1000, hits = 0,
                    ttl = Some 7200000\<rparr>)],
      total_hits = 0, misses = 0, maxEntries = 10, defaultTtl = 7200000\<rparr>"
  by (simp add: demo_expiring_cache_def cache_set_def new_MemoryCache_def Let_def js_def)

theorem expiry_on_read_and_cleanup_witness:
  "map_of (cache demo_expiring_cache) (js ''a'') =
      Some \<lparr>entry_value = demo_result, timestamp = 1000, hits = 0, ttl = Some 500\<rparr>
   \<and> (500::int) \<noteq> 0 \<and> (1000::int) + 500 < 1501
   \<and> cache_get demo_expiring_cache (js ''a'') 1501 =
       (None, demo_expiring_cache\<lparr>cache := AList.delete (js ''a'') (cache demo_expiring_cache),
                                 misses := misses demo_expiring_cache + 1\<rparr>)
   \<and> distinct (map fst (cache demo_expiring_cache))
   \<and> fst (cleanup demo_expiring_cache 1501) = 1
   \<and> map fst (cache (snd (cleanup demo_expiring_cache 1501))) = [js ''b'']"
proof -
  have entry: "map_of (cache demo_expiring_cache) (js ''a'') =
      Some \<lparr>entry_value = demo_result, timestamp = 1000, hits = 0, ttl = Some 500\<rparr>"
    by (simp add: demo_expiring_cache_eq js_def)
  have dist: "distinct (map fst (cache demo_expiring_cache))"
    by (simp add: demo_expiring_cache_eq js_def)
  note inst = expiry_on_read_and_cleanup [where c = demo_expiring_cache and k = "js ''a''"
      and e = "\<lparr>entry_value = demo_result, timestamp = 1000, hits = 0, ttl = Some 500\<rparr>"
      and T = 500 and now = 1501]
  have get: "cache_get demo_expiring_cache (js ''a'') 1501 =
       (None, demo_expiring_cache\<lparr>cache := AList.delete (js ''a'') (cache demo_expiring_cache),
                                 misses := misses demo_expiring_cache + 1\<rparr>)"
    using inst entry by simp
  have "cleanup demo_expiring_cache 1501 =
      (length (filter (\<lambda>(k, e). isExpired e 1501) (cache demo_expiring_cache)),
       demo_expiring_cache\<lparr>cache := filter (\<lambda>(k, e). \<not> isExpired e 1501)
                                          (cache demo_expiring_cache)\<rparr>)"
    using inst dist by blast
  then have clean: "fst (cleanup demo_expiring_cache 1501) = 1
      \<and> map fst (cache (snd (cleanup demo_expiring_cache 1501))) = [js ''b'']"
    by (simp add: demo_expiring_cache_eq isExpired_def)
  from entry get dist clean show ?thesis by simp
qed

text \<open>
  With a default ttl of 0 an entry inserted without ttl is still returned long after;
  with a ttl argument of 0 the entry is still present after the insertion time plus 0.
\<close>

theorem zero_ttl_never_expires_counterexample:
  "fst (cache_get (cache_set (new_MemoryCache 10 0) (js ''k'') demo_result None 1000)
          (js ''k'') 1000000000000) = Some demo_result
   \<and> fst (cache_get (cache_set (new_MemoryCache 10 7200000) (js ''k'') demo_result (Some 0) 1000)
            (js ''k'') 1001) = Some demo_result"
  by (simp add: cache_get_def cache_set_lookup isExpired_def new_MemoryCache_def)





section \<open>Repeated analysis of one text\<close>

















end
